theory Spec2Isabelle
  imports Main "HOL-Library.Word"
begin

section \<open>Strings and URL normalisation (Bookmarks.tsx, lines 15-20)\<close>

text \<open>
  A JavaScript string is a sequence of UTF-16 code units. String literals of the
  source are ASCII and are written through \<open>js\<close>.
\<close>

type_synonym jsstring = "16 word list"

definition js :: "string \<Rightarrow> jsstring" where
  "js cs = map (\<lambda>c. of_nat (of_char c)) cs"

text \<open>
  \<^verbatim>\<open>String.prototype.trim\<close> removes the ECMAScript WhiteSpace and LineTerminator
  code points from both ends; all of them are single code units.
\<close>

definition is_ws :: "16 word \<Rightarrow> bool" where
  "is_ws c \<longleftrightarrow>
     c \<in> {0x0009, 0x000A, 0x000B, 0x000C, 0x000D, 0x0020, 0x00A0, 0x1680,
          0x2028, 0x2029, 0x202F, 0x205F, 0x3000, 0xFEFF}
     \<or> (0x2000 \<le> c \<and> c \<le> 0x200A)"

definition trim :: "jsstring \<Rightarrow> jsstring" where
  "trim s = rev (dropWhile is_ws (rev (dropWhile is_ws s)))"

text \<open>
  The test \<^verbatim>\<open>/^https?:\/\//i.test(v)\<close>. Without the \<^verbatim>\<open>u\<close> flag, case-insensitive
  matching compares upper-cased code units, and a code unit above 127 never
  canonicalises to an ASCII one; so against the ASCII pattern only the ASCII
  letters need folding. The optional \<^verbatim>\<open>s\<close> is tried first and given up when the
  rest does not match, as the backtracking matcher does.
\<close>

definition canonicalize :: "16 word \<Rightarrow> 16 word" where
  "canonicalize c = (if 0x61 \<le> c \<and> c \<le> 0x7A then c - 0x20 else c)"

fun strip_ci :: "jsstring \<Rightarrow> jsstring \<Rightarrow> jsstring option" where
  "strip_ci [] v = Some v"
| "strip_ci (p # ps) [] = None"
| "strip_ci (p # ps) (c # cs) =
     (if canonicalize c = canonicalize p then strip_ci ps cs else None)"

definition test_http :: "jsstring \<Rightarrow> bool" where
  "test_http v =
     (case strip_ci (js ''http'') v of
        None \<Rightarrow> False
      | Some r \<Rightarrow>
          (case strip_ci (js ''s'') r of
             Some r' \<Rightarrow> strip_ci (js ''://'') r' \<noteq> None \<or> strip_ci (js ''://'') r \<noteq> None
           | None \<Rightarrow> strip_ci (js ''://'') r \<noteq> None))"

definition normalizeUrl :: "jsstring \<Rightarrow> jsstring" where
  "normalizeUrl raw =
     (let v = trim raw in
      if v = [] then []
      else if \<not> test_http v then js ''https://'' @ v
      else v)"

text \<open>
  The specification speaks of a URL that ``is already absolute (has a scheme)''.
  \<open>spec_has_scheme\<close> is that notion as the URL standards define it (a letter, then
  letters, digits, \<open>+\<close>, \<open>-\<close> or \<open>.\<close>, then a colon); it is not taken from the code and
  is only used to compare the specification's wording with \<open>test_http\<close>.
\<close>

definition is_alpha :: "16 word \<Rightarrow> bool" where
  "is_alpha c \<longleftrightarrow> (0x41 \<le> c \<and> c \<le> 0x5A) \<or> (0x61 \<le> c \<and> c \<le> 0x7A)"

definition is_scheme_char :: "16 word \<Rightarrow> bool" where
  "is_scheme_char c \<longleftrightarrow>
     is_alpha c \<or> (0x30 \<le> c \<and> c \<le> 0x39) \<or> c = 0x2B \<or> c = 0x2D \<or> c = 0x2E"

definition spec_has_scheme :: "jsstring \<Rightarrow> bool" where
  "spec_has_scheme v =
     (case v of
        [] \<Rightarrow> False
      | c # cs \<Rightarrow>
          is_alpha c \<and>
          (case dropWhile is_scheme_char cs of [] \<Rightarrow> False | d # _ \<Rightarrow> d = 0x3A))"

section \<open>The bookmark component (Bookmarks.tsx, lines 30-241)\<close>

subsection \<open>Data\<close>

text \<open>
  The row type \<^verbatim>\<open>Bookmark\<close> (lines 7-13); its fields carry the prefix \<open>bm_\<close> because
  \<open>title\<close> and \<open>url\<close> also name hooks of the component.
\<close>

record bookmark =
  bm_id :: jsstring
  bm_user_id :: jsstring
  bm_title :: jsstring
  bm_url :: jsstring
  bm_created_at :: jsstring

text \<open>The toast \<^verbatim>\<open>{ type: "ok" | "err"; text: string }\<close> of lines 43-46.\<close>

datatype notice_type = ok | err

record notice =
  msg_type :: notice_type
  msg_text :: jsstring

text \<open>
  The data store is outside the repository. Its client resolves every call to a
  pair \<^verbatim>\<open>{ data, error }\<close>, either of which may be \<^verbatim>\<open>null\<close>; of the error object the
  source reads only \<^verbatim>\<open>message\<close>. The three calls the component issues are the
  constructors of \<open>request\<close>: the ordered select of line 52, the insert of line 194
  (user id, title, url) and the delete of line 229 (row id).
\<close>

record pg_error =
  err_message :: jsstring

record 'a response =
  data :: "'a option"
  error :: "pg_error option"

datatype request =
    Select
  | Insert jsstring jsstring jsstring
  | Delete jsstring

text \<open>\<^verbatim>\<open>new URL(u)\<close> either returns a URL object or throws a \<^verbatim>\<open>TypeError\<close>.\<close>

datatype exn = TypeError

text \<open>
  The hooks of lines 34-46, followed by the part of the host the auto-hide effect
  of lines 165-169 works on: a logical clock in milliseconds, the table of pending
  timeouts (handle and due time; the only callback ever scheduled is
  \<^verbatim>\<open>() => setMessage(null)\<close>), the next free handle, and the handle \<^verbatim>\<open>t\<close> captured by
  the cleanup function the effect returned last.
\<close>

record state =
  title :: jsstring
  url :: jsstring
  items :: "bookmark list"
  loading :: bool
  submitting :: bool
  deletingId :: "jsstring option"
  message :: "notice option"
  clock :: nat
  timers :: "(nat \<times> nat) list"
  next_handle :: nat
  hide_handle :: "nat option"

definition initial_state :: state where
  "initial_state =
     \<lparr>title = [], url = [], items = [], loading = True, submitting = False,
      deletingId = None, message = None,
      clock = 0, timers = [], next_handle = 0, hide_handle = None\<rparr>"

text \<open>
  An asynchronous handler runs until its next \<^verbatim>\<open>await\<close>. Each stretch between two
  awaits is one function of the model; it ends by returning, by suspending on a
  request to the store, or by throwing. State changes made before a throw stay.
\<close>

datatype outcome =
    Finished state
  | Awaiting request state
  | Threw exn state

fun state_of :: "outcome \<Rightarrow> state" where
  "state_of (Finished s) = s"
| "state_of (Awaiting q s) = s"
| "state_of (Threw e s) = s"

subsection \<open>State setters and the auto-hide effect\<close>

definition setTitle :: "jsstring \<Rightarrow> state \<Rightarrow> state" where
  "setTitle v s = s\<lparr>title := v\<rparr>"

definition setUrl :: "jsstring \<Rightarrow> state \<Rightarrow> state" where
  "setUrl v s = s\<lparr>url := v\<rparr>"

definition setItems :: "bookmark list \<Rightarrow> state \<Rightarrow> state" where
  "setItems v s = s\<lparr>items := v\<rparr>"

definition setLoading :: "bool \<Rightarrow> state \<Rightarrow> state" where
  "setLoading v s = s\<lparr>loading := v\<rparr>"

definition setSubmitting :: "bool \<Rightarrow> state \<Rightarrow> state" where
  "setSubmitting v s = s\<lparr>submitting := v\<rparr>"

definition setDeletingId :: "jsstring option \<Rightarrow> state \<Rightarrow> state" where
  "setDeletingId v s = s\<lparr>deletingId := v\<rparr>"

definition clearTimeout :: "nat \<Rightarrow> state \<Rightarrow> state" where
  "clearTimeout t s = s\<lparr>timers := filter (\<lambda>(h, due). h \<noteq> t) (timers s)\<rparr>"

definition setTimeout :: "nat \<Rightarrow> state \<Rightarrow> nat \<times> state" where
  "setTimeout delay s =
     (next_handle s,
      s\<lparr>timers := timers s @ [(next_handle s, clock s + delay)],
        next_handle := next_handle s + 1\<rparr>)"

text \<open>
  Lines 165-169. \<open>message_effect\<close> is the effect body: nothing for \<^verbatim>\<open>null\<close>, otherwise
  a timeout of 2500 ms whose handle the returned cleanup keeps. \<open>message_cleanup\<close> is
  that cleanup. The effect depends on \<^verbatim>\<open>[message]\<close>: it is cleaned up and run again
  when the value of \<open>message\<close> is replaced by a different one. Every object literal
  passed to \<^verbatim>\<open>setMessage\<close> is a new value; \<^verbatim>\<open>null\<close> over \<^verbatim>\<open>null\<close> is no change.
\<close>

definition message_cleanup :: "state \<Rightarrow> state" where
  "message_cleanup s = (case hide_handle s of None \<Rightarrow> s | Some t \<Rightarrow> clearTimeout t s)"

definition message_effect :: "state \<Rightarrow> state" where
  "message_effect s =
     (case message s of
        None \<Rightarrow> s\<lparr>hide_handle := None\<rparr>
      | Some m \<Rightarrow> (let (t, s') = setTimeout 2500 s in s'\<lparr>hide_handle := Some t\<rparr>))"

definition setMessage :: "notice option \<Rightarrow> state \<Rightarrow> state" where
  "setMessage v s =
     (if v = None \<and> message s = None then s
      else message_effect ((message_cleanup s)\<lparr>message := v\<rparr>))"

text \<open>
  Time passing. A timeout whose due time has come is taken out of the table and
  its callback \<^verbatim>\<open>setMessage(null)\<close> runs; a handle cleared meanwhile does not fire.
\<close>

definition fire :: "nat \<Rightarrow> state \<Rightarrow> state" where
  "fire h s =
     (if h \<in> set (map fst (timers s)) then setMessage None (clearTimeout h s) else s)"

definition advance :: "nat \<Rightarrow> state \<Rightarrow> state" where
  "advance d s =
     (let s' = s\<lparr>clock := clock s + d\<rparr>
      in fold fire (map fst (filter (\<lambda>(h, due). due \<le> clock s') (timers s'))) s')"

subsection \<open>fetchBookmarks (lines 51-62) and the initial load (lines 129-137)\<close>

text \<open>
  \<open>fetchBookmarks\<close> touches no state before it awaits the select. The initial load
  sets \<open>loading\<close>, awaits \<open>fetchBookmarks\<close>, and clears \<open>loading\<close> if the flag
  \<^verbatim>\<open>mounted\<close> of its effect is still set; the effect's cleanup (line 157) resets it.
\<close>

definition fetchBookmarks_call :: "state \<Rightarrow> outcome" where
  "fetchBookmarks_call s = Awaiting Select s"

definition fetchBookmarks_resume :: "bookmark list response \<Rightarrow> state \<Rightarrow> state" where
  "fetchBookmarks_resume r s =
     (case error r of
        Some e \<Rightarrow> setMessage (Some \<lparr>msg_type = err, msg_text = err_message e\<rparr>) s
      | None \<Rightarrow> setItems (case data r of Some d \<Rightarrow> d | None \<Rightarrow> []) s)"

definition initialLoad_start :: "state \<Rightarrow> outcome" where
  "initialLoad_start s = Awaiting Select (setLoading True s)"

definition initialLoad_resume :: "bool \<Rightarrow> bookmark list response \<Rightarrow> state \<Rightarrow> outcome" where
  "initialLoad_resume mounted r s =
     (let s1 = fetchBookmarks_resume r s
      in if mounted then Finished (setLoading False s1) else Finished s1)"

subsection \<open>addBookmark (lines 176-219)\<close>

text \<open>
  Three stretches: from the submit event to the insert request; from the insert's
  reply to the return or to the fallback refetch; from the refetch's reply to the
  return. \<open>new_URL\<close> is the host's URL constructor and \<open>userId\<close> the component's prop.
\<close>

definition addBookmark_submit ::
  "(jsstring \<Rightarrow> exn + 'u) \<Rightarrow> jsstring \<Rightarrow> state \<Rightarrow> outcome" where
  "addBookmark_submit new_URL userId s0 =
     (let s = setMessage None s0;
          t = trim (title s0);
          u = normalizeUrl (url s0)
      in if t = [] then
           Finished (setMessage
             (Some \<lparr>msg_type = err, msg_text = js ''Please enter a title.''\<rparr>) s)
         else if u = [] then
           Finished (setMessage
             (Some \<lparr>msg_type = err, msg_text = js ''Please enter a URL.''\<rparr>) s)
         else
           (case new_URL u of
              Inl e \<Rightarrow>
                Finished (setMessage
                  (Some \<lparr>msg_type = err, msg_text = js ''Please enter a valid URL.''\<rparr>) s)
            | Inr parsed \<Rightarrow> Awaiting (Insert userId t u) (setSubmitting True s)))"

definition addBookmark_done :: "state \<Rightarrow> state" where
  "addBookmark_done s =
     setMessage (Some \<lparr>msg_type = ok, msg_text = js ''Bookmark added!''\<rparr>)
       (setUrl [] (setTitle [] s))"

definition addBookmark_inserted :: "bookmark response \<Rightarrow> state \<Rightarrow> outcome" where
  "addBookmark_inserted r s0 =
     (let s = setSubmitting False s0
      in case error r of
           Some e \<Rightarrow>
             Finished (setMessage (Some \<lparr>msg_type = err, msg_text = err_message e\<rparr>) s)
         | None \<Rightarrow>
             (case data r of
                Some b \<Rightarrow> Finished (addBookmark_done (setItems (b # items s) s))
              | None \<Rightarrow> Awaiting Select s))"

definition addBookmark_refetched :: "bookmark list response \<Rightarrow> state \<Rightarrow> outcome" where
  "addBookmark_refetched r s = Finished (addBookmark_done (fetchBookmarks_resume r s))"

subsection \<open>deleteBookmark (lines 225-241)\<close>

definition deleteBookmark_click :: "jsstring \<Rightarrow> state \<Rightarrow> outcome" where
  "deleteBookmark_click i s =
     Awaiting (Delete i) (setDeletingId (Some i) (setMessage None s))"

definition deleteBookmark_resume :: "jsstring \<Rightarrow> 'a response \<Rightarrow> state \<Rightarrow> outcome" where
  "deleteBookmark_resume i r s0 =
     (let s = setDeletingId None s0
      in case error r of
           Some e \<Rightarrow>
             Finished (setMessage (Some \<lparr>msg_type = err, msg_text = err_message e\<rparr>) s)
         | None \<Rightarrow>
             Finished (setMessage (Some \<lparr>msg_type = ok, msg_text = js ''Deleted.''\<rparr>)
               (setItems (filter (\<lambda>b. bm_id b \<noteq> i) (items s)) s)))"

subsection \<open>The event loop\<close>

text \<open>
  The host runs one stretch at a time. An event is a user action, the arrival of
  a reply the component is waiting for, or the passing of time. \<open>run\<close> applies a
  sequence of events; it does not check that a reply answers a request that was
  made, so its traces include every interleaving the component can see.
\<close>

datatype event =
    TitleInput jsstring
  | UrlInput jsstring
  | Submit
  | InsertReply "bookmark response"
  | RefetchReply "bookmark list response"
  | DeleteClick jsstring
  | DeleteReply jsstring "unit response"
  | RefreshReply "bookmark list response"
  | LoadStart
  | LoadReply bool "bookmark list response"
  | Elapse nat

fun step :: "(jsstring \<Rightarrow> exn + 'u) \<Rightarrow> jsstring \<Rightarrow> event \<Rightarrow> state \<Rightarrow> state" where
  "step new_URL userId (TitleInput v) s = setTitle v s"
| "step new_URL userId (UrlInput v) s = setUrl v s"
| "step new_URL userId Submit s = state_of (addBookmark_submit new_URL userId s)"
| "step new_URL userId (InsertReply r) s = state_of (addBookmark_inserted r s)"
| "step new_URL userId (RefetchReply r) s = state_of (addBookmark_refetched r s)"
| "step new_URL userId (DeleteClick i) s = state_of (deleteBookmark_click i s)"
| "step new_URL userId (DeleteReply i r) s = state_of (deleteBookmark_resume i r s)"
| "step new_URL userId (RefreshReply r) s = fetchBookmarks_resume r s"
| "step new_URL userId LoadStart s = state_of (initialLoad_start s)"
| "step new_URL userId (LoadReply mounted r) s = state_of (initialLoad_resume mounted r s)"
| "step new_URL userId (Elapse d) s = advance d s"

definition run :: "(jsstring \<Rightarrow> exn + 'u) \<Rightarrow> jsstring \<Rightarrow> event list \<Rightarrow> state \<Rightarrow> state" where
  "run new_URL userId evs s = fold (step new_URL userId) evs s"

text \<open>
  What the effect maintains: without a notice no timeout is pending; with a
  notice exactly one is, the one the cleanup holds, due within the next 2500 ms.
\<close>

definition timer_inv :: "state \<Rightarrow> bool" where
  "timer_inv s =
     (case message s of
        None \<Rightarrow> timers s = [] \<and> hide_handle s = None
      | Some m \<Rightarrow>
          (case timers s of
             [(h, due)] \<Rightarrow> hide_handle s = Some h \<and> clock s < due \<and> due \<le> clock s + 2500
           | _ \<Rightarrow> False))"






text \<open>
  A notice that has just been set: it is showing, and the only pending timeout is
  the one the cleanup holds, due exactly 2500 ms from now.
\<close>

definition fresh_notice :: "state \<Rightarrow> bool" where
  "fresh_notice s =
     (case timers s of
        [(h, due)] \<Rightarrow> message s \<noteq> None \<and> hide_handle s = Some h \<and> due = clock s + 2500
      | _ \<Rightarrow> False)"

section \<open>URL normalisation: properties\<close>

subsection \<open>Trimming\<close>

lemma dropWhile_hd_id: "xs \<noteq> [] \<Longrightarrow> \<not> P (hd xs) \<Longrightarrow> dropWhile P xs = xs"
  by (cases xs) simp_all

lemma last_dropWhile_keep: "dropWhile P xs \<noteq> [] \<Longrightarrow> last (dropWhile P xs) = last xs"
  by (induction xs) (auto split: if_splits)

lemma trim_Nil: "trim [] = []"
  by (simp add: trim_def)

lemma trim_fixed:
  assumes "xs \<noteq> []" "\<not> is_ws (hd xs)" "\<not> is_ws (last xs)"
  shows "trim xs = xs"
proof -
  have "dropWhile is_ws xs = xs"
    using assms by (simp add: dropWhile_hd_id)
  moreover have "dropWhile is_ws (rev xs) = rev xs"
    using assms by (simp add: dropWhile_hd_id hd_rev)
  ultimately show ?thesis by (simp add: trim_def)
qed

lemma trim_ends:
  assumes "trim s \<noteq> []"
  shows "\<not> is_ws (hd (trim s))" and "\<not> is_ws (last (trim s))"
proof -
  define ys where "ys = dropWhile is_ws s"
  define zs where "zs = dropWhile is_ws (rev ys)"
  have t: "trim s = rev zs" by (simp add: trim_def ys_def zs_def)
  with assms have zs: "zs \<noteq> []" by simp
  then have ys: "ys \<noteq> []" by (auto simp: zs_def)
  have "last zs = last (rev ys)"
    using zs unfolding zs_def by (rule last_dropWhile_keep)
  then have "last zs = hd ys" using ys by (simp add: last_rev)
  moreover have "\<not> is_ws (hd ys)" using ys unfolding ys_def by (rule hd_dropWhile)
  ultimately show "\<not> is_ws (hd (trim s))" using zs by (simp add: t hd_rev)
  have "\<not> is_ws (hd zs)" using zs unfolding zs_def by (rule hd_dropWhile)
  then show "\<not> is_ws (last (trim s))" using zs by (simp add: t last_rev)
qed

lemma trim_idem: "trim (trim s) = trim s"
proof (cases "trim s = []")
  case True
  then show ?thesis by (simp add: trim_Nil)
next
  case False
  then show ?thesis by (intro trim_fixed trim_ends)
qed

lemma trim_https_prefix:
  assumes "trim s \<noteq> []"
  shows "trim (js ''https://'' @ trim s) = js ''https://'' @ trim s"
proof (rule trim_fixed)
  show "js ''https://'' @ trim s \<noteq> []" by (simp add: js_def)
  show "\<not> is_ws (hd (js ''https://'' @ trim s))" by (simp add: js_def is_ws_def)
  show "\<not> is_ws (last (js ''https://'' @ trim s))" using assms trim_ends(2) by simp
qed

lemma test_http_https_prefix: "test_http (js ''https://'' @ v)"
  by (simp add: js_def test_http_def canonicalize_def)

lemma normalizeUrl_Nil_iff: "normalizeUrl raw = [] \<longleftrightarrow> trim raw = []"
  by (simp add: normalizeUrl_def Let_def js_def)

lemma normalizeUrl_idem: "normalizeUrl (normalizeUrl raw) = normalizeUrl raw"
proof -
  consider (blank) "trim raw = []"
    | (http) "trim raw \<noteq> []" "test_http (trim raw)"
    | (other) "trim raw \<noteq> []" "\<not> test_http (trim raw)"
    by blast
  then show ?thesis
  proof cases
    case blank
    then show ?thesis by (simp add: normalizeUrl_def trim_Nil)
  next
    case http
    then show ?thesis by (simp add: normalizeUrl_def trim_idem)
  next
    case other
    then show ?thesis
      by (simp add: normalizeUrl_def trim_https_prefix test_http_https_prefix)
  qed
qed

subsection \<open>Claim C5\<close>

text \<open>
  C5, the part that does not hold as worded. The claim says that every URL that
  already has a scheme is returned unchanged apart from trimming. The code only
  recognises \<open>http://\<close> and \<open>https://\<close>: the string \<open>ftp://example.com\<close> has a scheme
  and is trimmed already, yet it is returned with \<open>https://\<close> put in front.
\<close>

theorem normalizeUrl_other_scheme_counterexample:
  "spec_has_scheme (js ''ftp://example.com'')
   \<and> trim (js ''ftp://example.com'') = js ''ftp://example.com''
   \<and> normalizeUrl (js ''ftp://example.com'') = js ''https://ftp://example.com''
   \<and> normalizeUrl (js ''ftp://example.com'') \<noteq> trim (js ''ftp://example.com'')"
  by (simp add: spec_has_scheme_def is_alpha_def is_scheme_char_def normalizeUrl_def
      trim_def is_ws_def test_http_def canonicalize_def js_def)

text \<open>
  C5 as the code has it. Normalising is idempotent on every string. An input whose
  trimmed form starts with \<open>http://\<close> or \<open>https://\<close> (in any letter case) is
  returned trimmed and otherwise unchanged; every other input that is not blank
  gets \<open>https://\<close> in front of its trimmed form, whether or not it carries another
  scheme; a blank input yields the empty string. Normalising \<open>example.com\<close> yields
  \<open>https://example.com\<close>.
\<close>

theorem normalizeUrl_spec:
  "normalizeUrl (normalizeUrl raw) = normalizeUrl raw
   \<and> (test_http (trim raw) \<longrightarrow> normalizeUrl raw = trim raw)
   \<and> (trim raw \<noteq> [] \<and> \<not> test_http (trim raw) \<longrightarrow>
        normalizeUrl raw = js ''https://'' @ trim raw)
   \<and> (trim raw = [] \<longrightarrow> normalizeUrl raw = [])
   \<and> normalizeUrl (js ''example.com'') = js ''https://example.com''"
proof -
  have "normalizeUrl (js ''example.com'') = js ''https://example.com''"
    by (simp add: normalizeUrl_def trim_def is_ws_def test_http_def canonicalize_def js_def)
  moreover have "test_http (trim raw) \<longrightarrow> normalizeUrl raw = trim raw"
    by (simp add: normalizeUrl_def Let_def)
  moreover have "trim raw \<noteq> [] \<and> \<not> test_http (trim raw) \<longrightarrow>
      normalizeUrl raw = js ''https://'' @ trim raw"
    by (simp add: normalizeUrl_def)
  moreover have "trim raw = [] \<longrightarrow> normalizeUrl raw = []"
    by (simp add: normalizeUrl_def)
  ultimately show ?thesis
    by (simp add: normalizeUrl_idem)
qed

theorem normalizeUrl_spec_witness:
  "test_http (trim (js '' HTTP://a.b ''))
   \<and> normalizeUrl (js '' HTTP://a.b '') = js ''HTTP://a.b''
   \<and> trim (js '' a.b '') \<noteq> []
   \<and> \<not> test_http (trim (js '' a.b ''))
   \<and> normalizeUrl (js '' a.b '') = js ''https://a.b''
   \<and> trim (js ''  '') = []
   \<and> normalizeUrl (js ''  '') = []
   \<and> normalizeUrl (normalizeUrl (js '' a.b '')) = js ''https://a.b''"
proof -
  have t1: "trim (js '' HTTP://a.b '') = js ''HTTP://a.b''"
    by (simp add: trim_def is_ws_def js_def)
  have t2: "trim (js '' a.b '') = js ''a.b''"
    by (simp add: trim_def is_ws_def js_def)
  have t3: "trim (js ''  '') = []"
    by (simp add: trim_def is_ws_def js_def)
  have h1: "test_http (js ''HTTP://a.b'')"
    by (simp add: test_http_def canonicalize_def js_def)
  have h2: "\<not> test_http (js ''a.b'')"
    by (simp add: test_http_def canonicalize_def js_def)
  have n2: "js ''a.b'' \<noteq> []"
    by (simp add: js_def)
  have a2: "js ''https://'' @ js ''a.b'' = js ''https://a.b''"
    by (simp add: js_def)
  note a = normalizeUrl_spec [of "js '' HTTP://a.b ''"]
  note b = normalizeUrl_spec [of "js '' a.b ''"]
  note c = normalizeUrl_spec [of "js ''  ''"]
  have r1: "normalizeUrl (js '' HTTP://a.b '') = js ''HTTP://a.b''"
    using a h1 by (simp add: t1)
  have r2: "normalizeUrl (js '' a.b '') = js ''https://a.b''"
    using b h2 n2 by (simp add: t2 a2)
  have r3: "normalizeUrl (js ''  '') = []"
    using c by (simp add: t3)
  have r4: "normalizeUrl (normalizeUrl (js '' a.b '')) = normalizeUrl (js '' a.b '')"
    using b by blast
  show ?thesis
    using r1 r2 r3 r4 by (simp add: t1 t2 t3 h1 h2 n2)
qed

section \<open>The component's operations\<close>

lemmas setters =
  setTitle_def setUrl_def setItems_def setLoading_def setSubmitting_def setDeletingId_def

lemmas msg_defs =
  setMessage_def message_effect_def message_cleanup_def clearTimeout_def setTimeout_def

lemmas str_defs = js_def trim_def is_ws_def normalizeUrl_def test_http_def canonicalize_def

lemma setMessage_message: "message (setMessage v s) = v"
  by (cases v) (simp_all add: msg_defs split: option.splits)

lemma setMessage_frame:
  "title (setMessage v s) = title s"
  "url (setMessage v s) = url s"
  "items (setMessage v s) = items s"
  "loading (setMessage v s) = loading s"
  "submitting (setMessage v s) = submitting s"
  "deletingId (setMessage v s) = deletingId s"
  "clock (setMessage v s) = clock s"
  by (simp_all add: msg_defs split: option.splits)

lemma fetchBookmarks_resume_frame:
  "title (fetchBookmarks_resume r s) = title s"
  "url (fetchBookmarks_resume r s) = url s"
  "loading (fetchBookmarks_resume r s) = loading s"
  "submitting (fetchBookmarks_resume r s) = submitting s"
  "deletingId (fetchBookmarks_resume r s) = deletingId s"
  by (simp_all add: fetchBookmarks_resume_def setMessage_frame setters split: option.splits)

lemma addBookmark_done_fields:
  "title (addBookmark_done s) = []"
  "url (addBookmark_done s) = []"
  "message (addBookmark_done s) = Some \<lparr>msg_type = ok, msg_text = js ''Bookmark added!''\<rparr>"
  "items (addBookmark_done s) = items s"
  "loading (addBookmark_done s) = loading s"
  "deletingId (addBookmark_done s) = deletingId s"
  by (simp_all add: addBookmark_done_def setMessage_frame setMessage_message setters)

lemma filter_absent_key: "k \<notin> set (map f xs) \<Longrightarrow> filter (\<lambda>x. f x = k) xs = []"
  by (induction xs) auto

lemma filter_other_keys: "k \<notin> set (map f xs) \<Longrightarrow> filter (\<lambda>x. f x \<noteq> k) xs = xs"
  by (induction xs) auto

subsection \<open>Claim C1\<close>

text \<open>
  C1. A refresh changes nothing before its select is answered. When a successful
  answer \<open>r\<close> is applied, the collection becomes exactly the rows of \<open>r\<close> (the empty
  list when the store sends no rows), whatever it held before. For two
  overlapping refreshes the collection is the answer applied last, in either
  order, with nothing kept from the other; the same holds after any sequence of
  other events \<open>evs\<close>.
\<close>

theorem refresh_last_response_wins:
  assumes "error r = None" and "error r' = None"
  shows "fetchBookmarks_call s = Awaiting Select s
    \<and> items (fetchBookmarks_resume r s) = (case data r of Some d \<Rightarrow> d | None \<Rightarrow> [])
    \<and> items (fetchBookmarks_resume r (fetchBookmarks_resume r' s))
        = (case data r of Some d \<Rightarrow> d | None \<Rightarrow> [])
    \<and> items (fetchBookmarks_resume r' (fetchBookmarks_resume r s))
        = (case data r' of Some d \<Rightarrow> d | None \<Rightarrow> [])
    \<and> items (fetchBookmarks_resume r (run new_URL userId evs s))
        = (case data r of Some d \<Rightarrow> d | None \<Rightarrow> [])"
  using assms by (simp add: fetchBookmarks_call_def fetchBookmarks_resume_def setters)

theorem refresh_last_response_wins_witness:
  "error \<lparr>data = Some [\<lparr>bm_id = js ''2'', bm_user_id = js ''u'', bm_title = js ''B'',
          bm_url = js ''https://b.example'', bm_created_at = js ''t2''\<rparr>], error = None\<rparr> = None
   \<and> error \<lparr>data = Some ([] :: bookmark list), error = None\<rparr> = None
   \<and> items (fetchBookmarks_resume
        \<lparr>data = Some [\<lparr>bm_id = js ''2'', bm_user_id = js ''u'', bm_title = js ''B'',
          bm_url = js ''https://b.example'', bm_created_at = js ''t2''\<rparr>], error = None\<rparr>
        (fetchBookmarks_resume \<lparr>data = Some [], error = None\<rparr> initial_state))
     = [\<lparr>bm_id = js ''2'', bm_user_id = js ''u'', bm_title = js ''B'',
          bm_url = js ''https://b.example'', bm_created_at = js ''t2''\<rparr>]
   \<and> items (fetchBookmarks_resume \<lparr>data = Some [], error = None\<rparr>
        (fetchBookmarks_resume
          \<lparr>data = Some [\<lparr>bm_id = js ''2'', bm_user_id = js ''u'', bm_title = js ''B'',
          bm_url = js ''https://b.example'', bm_created_at = js ''t2''\<rparr>], error = None\<rparr>
          initial_state))
     = []"
  using refresh_last_response_wins
    [where r = "\<lparr>data = Some [\<lparr>bm_id = js ''2'', bm_user_id = js ''u'', bm_title = js ''B'',
          bm_url = js ''https://b.example'', bm_created_at = js ''t2''\<rparr>], error = None\<rparr>"
       and r' = "\<lparr>data = Some [], error = None\<rparr>" and s = initial_state
       and new_URL = "\<lambda>u. Inr ()" and userId = "[]" and evs = "[]"]
  by simp

subsection \<open>Claim C2\<close>

text \<open>
  C2. If the trimmed title is empty, or the trimmed URL is empty, or the URL
  constructor throws on the normalised URL, then \<open>addBookmark\<close> returns at once: it
  ends with an error notice, reaches no insert request, and leaves the collection
  as it was. The notice tells which check failed, and the checks come in the
  order title, URL present, URL parses.
\<close>

theorem addBookmark_rejects_malformed:
  assumes "trim (title s) = [] \<or> trim (url s) = [] \<or> isl (new_URL (normalizeUrl (url s)))"
  shows "\<exists>s'. addBookmark_submit new_URL userId s = Finished s'
      \<and> items s' = items s
      \<and> message s' = Some \<lparr>msg_type = err, msg_text =
            (if trim (title s) = [] then js ''Please enter a title.''
             else if trim (url s) = [] then js ''Please enter a URL.''
             else js ''Please enter a valid URL.'')\<rparr>"
proof -
  consider (title) "trim (title s) = []"
    | (url) "trim (title s) \<noteq> []" "trim (url s) = []"
    | (parse) "trim (title s) \<noteq> []" "trim (url s) \<noteq> []"
        "isl (new_URL (normalizeUrl (url s)))"
    using assms by blast
  then show ?thesis
  proof cases
    case title
    then show ?thesis
      by (simp add: addBookmark_submit_def Let_def setMessage_frame setMessage_message)
  next
    case url
    then show ?thesis
      by (simp add: addBookmark_submit_def Let_def normalizeUrl_Nil_iff
          setMessage_frame setMessage_message)
  next
    case parse
    from parse(3) obtain e where "new_URL (normalizeUrl (url s)) = Inl e"
      by (cases "new_URL (normalizeUrl (url s))") simp_all
    with parse(1,2) show ?thesis
      by (simp add: addBookmark_submit_def Let_def normalizeUrl_Nil_iff
          setMessage_frame setMessage_message)
  qed
qed

theorem addBookmark_rejects_malformed_witness:
  "trim (title initial_state) = []
   \<and> message (state_of (addBookmark_submit (\<lambda>u. if u = js ''http://'' then Inl TypeError else Inr ()) (js ''u'') initial_state))
     = Some \<lparr>msg_type = err, msg_text = js ''Please enter a title.''\<rparr>
   \<and> trim (url (initial_state\<lparr>title := js ''Docs''\<rparr>)) = []
   \<and> message (state_of (addBookmark_submit (\<lambda>u. if u = js ''http://'' then Inl TypeError else Inr ()) (js ''u'')
        (initial_state\<lparr>title := js ''Docs''\<rparr>)))
     = Some \<lparr>msg_type = err, msg_text = js ''Please enter a URL.''\<rparr>
   \<and> isl ((\<lambda>u. if u = js ''http://'' then Inl TypeError else Inr ())
        (normalizeUrl (url (initial_state\<lparr>title := js ''Docs'', url := js ''http://''\<rparr>))))
   \<and> message (state_of (addBookmark_submit (\<lambda>u. if u = js ''http://'' then Inl TypeError else Inr ()) (js ''u'')
        (initial_state\<lparr>title := js ''Docs'', url := js ''http://''\<rparr>)))
     = Some \<lparr>msg_type = err, msg_text = js ''Please enter a valid URL.''\<rparr>
   \<and> items (state_of (addBookmark_submit (\<lambda>u. if u = js ''http://'' then Inl TypeError else Inr ()) (js ''u'')
        (initial_state\<lparr>title := js ''Docs'', url := js ''http://''\<rparr>)))
     = []"
proof -
  let ?URL0 = "(\<lambda>u. if u = js ''http://'' then Inl TypeError else Inr ())"
  let ?sa = "initial_state"
  let ?sb = "initial_state\<lparr>title := js ''Docs''\<rparr>"
  let ?sc = "initial_state\<lparr>title := js ''Docs'', url := js ''http://''\<rparr>"
  have t1: "trim (js ''Docs'') = js ''Docs''" by (simp add: str_defs)
  have n1: "js ''Docs'' \<noteq> []" by (simp add: js_def)
  have t2: "trim (js ''http://'') = js ''http://''" by (simp add: str_defs)
  have n2: "js ''http://'' \<noteq> []" by (simp add: js_def)
  have u2: "normalizeUrl (js ''http://'') = js ''http://''" by (simp add: str_defs)
  from addBookmark_rejects_malformed [where s = ?sa and new_URL = ?URL0 and userId = "js ''u''"]
  have a: "message (state_of (addBookmark_submit ?URL0 (js ''u'') ?sa))
     = Some \<lparr>msg_type = err, msg_text = js ''Please enter a title.''\<rparr>"
    by (auto simp: initial_state_def trim_Nil)
  from addBookmark_rejects_malformed [where s = ?sb and new_URL = ?URL0 and userId = "js ''u''"]
  have b: "message (state_of (addBookmark_submit ?URL0 (js ''u'') ?sb))
     = Some \<lparr>msg_type = err, msg_text = js ''Please enter a URL.''\<rparr>"
    by (auto simp: initial_state_def trim_Nil t1 n1)
  from addBookmark_rejects_malformed [where s = ?sc and new_URL = ?URL0 and userId = "js ''u''"]
  have c: "message (state_of (addBookmark_submit ?URL0 (js ''u'') ?sc))
     = Some \<lparr>msg_type = err, msg_text = js ''Please enter a valid URL.''\<rparr>
     \<and> items (state_of (addBookmark_submit ?URL0 (js ''u'') ?sc)) = []"
    by (auto simp: initial_state_def t1 n1 t2 n2 u2)
  show ?thesis
    using a b c by (simp add: initial_state_def trim_Nil u2)
qed

subsection \<open>Claim C3\<close>

text \<open>
  C3. When the delete is answered without error, the collection is the old one
  without the records whose identifier is the deleted one (wherever they stood),
  so no record with that identifier remains, and \<open>deletingId\<close> is cleared. When it
  is answered with an error, the collection is unchanged, \<open>deletingId\<close> is cleared
  and the notice carries the store's message. For the collection \<open>[a, b]\<close> with
  identifiers \<open>1\<close> and \<open>2\<close>, a successful delete of \<open>1\<close> leaves \<open>[b]\<close>.
\<close>

theorem deleteBookmark_reply:
  "(error r = None \<longrightarrow>
      (\<exists>s'. deleteBookmark_resume i r s = Finished s'
         \<and> items s' = filter (\<lambda>b. bm_id b \<noteq> i) (items s)
         \<and> i \<notin> set (map bm_id (items s'))
         \<and> deletingId s' = None))
   \<and> (error r = Some e \<longrightarrow>
      (\<exists>s'. deleteBookmark_resume i r s = Finished s'
         \<and> items s' = items s
         \<and> deletingId s' = None
         \<and> message s' = Some \<lparr>msg_type = err, msg_text = err_message e\<rparr>))
   \<and> (error r = None \<and> items s = [a, b] \<and> bm_id a = js ''1'' \<and> bm_id b = js ''2'' \<longrightarrow>
      items (state_of (deleteBookmark_resume (js ''1'') r s)) = [b])"
  by (auto simp: deleteBookmark_resume_def Let_def setMessage_frame setMessage_message
      setters js_def)

theorem deleteBookmark_reply_witness:
  "error (\<lparr>data = None, error = None\<rparr> :: unit response) = None
   \<and> items (state_of (deleteBookmark_resume (js ''1'') (\<lparr>data = None, error = None\<rparr> :: unit response)
        (initial_state\<lparr>items :=
          [\<lparr>bm_id = js ''1'', bm_user_id = js ''u'', bm_title = js ''A'',
          bm_url = js ''https://a.example'', bm_created_at = js ''t1''\<rparr>,
           \<lparr>bm_id = js ''2'', bm_user_id = js ''u'', bm_title = js ''B'',
          bm_url = js ''https://b.example'', bm_created_at = js ''t2''\<rparr>],
          deletingId := Some (js ''1'')\<rparr>)))
     = [\<lparr>bm_id = js ''2'', bm_user_id = js ''u'', bm_title = js ''B'',
          bm_url = js ''https://b.example'', bm_created_at = js ''t2''\<rparr>]
   \<and> deletingId (state_of (deleteBookmark_resume (js ''1'') (\<lparr>data = None, error = None\<rparr> :: unit response)
        (initial_state\<lparr>items :=
          [\<lparr>bm_id = js ''1'', bm_user_id = js ''u'', bm_title = js ''A'',
          bm_url = js ''https://a.example'', bm_created_at = js ''t1''\<rparr>,
           \<lparr>bm_id = js ''2'', bm_user_id = js ''u'', bm_title = js ''B'',
          bm_url = js ''https://b.example'', bm_created_at = js ''t2''\<rparr>],
          deletingId := Some (js ''1'')\<rparr>)))
     = None
   \<and> error (\<lparr>data = None, error = Some \<lparr>err_message = js ''denied''\<rparr>\<rparr> :: unit response)
     = Some \<lparr>err_message = js ''denied''\<rparr>
   \<and> items (state_of (deleteBookmark_resume (js ''1'')
        (\<lparr>data = None, error = Some \<lparr>err_message = js ''denied''\<rparr>\<rparr> :: unit response)
        (initial_state\<lparr>items :=
          [\<lparr>bm_id = js ''1'', bm_user_id = js ''u'', bm_title = js ''A'',
          bm_url = js ''https://a.example'', bm_created_at = js ''t1''\<rparr>,
           \<lparr>bm_id = js ''2'', bm_user_id = js ''u'', bm_title = js ''B'',
          bm_url = js ''https://b.example'', bm_created_at = js ''t2''\<rparr>],
          deletingId := Some (js ''1'')\<rparr>)))
     = [\<lparr>bm_id = js ''1'', bm_user_id = js ''u'', bm_title = js ''A'',
          bm_url = js ''https://a.example'', bm_created_at = js ''t1''\<rparr>,
        \<lparr>bm_id = js ''2'', bm_user_id = js ''u'', bm_title = js ''B'',
          bm_url = js ''https://b.example'', bm_created_at = js ''t2''\<rparr>]
   \<and> message (state_of (deleteBookmark_resume (js ''1'')
        (\<lparr>data = None, error = Some \<lparr>err_message = js ''denied''\<rparr>\<rparr> :: unit response)
        (initial_state\<lparr>items :=
          [\<lparr>bm_id = js ''1'', bm_user_id = js ''u'', bm_title = js ''A'',
          bm_url = js ''https://a.example'', bm_created_at = js ''t1''\<rparr>,
           \<lparr>bm_id = js ''2'', bm_user_id = js ''u'', bm_title = js ''B'',
          bm_url = js ''https://b.example'', bm_created_at = js ''t2''\<rparr>],
          deletingId := Some (js ''1'')\<rparr>)))
     = Some \<lparr>msg_type = err, msg_text = js ''denied''\<rparr>"
proof -
  let ?a0 = "\<lparr>bm_id = js ''1'', bm_user_id = js ''u'', bm_title = js ''A'',
          bm_url = js ''https://a.example'', bm_created_at = js ''t1''\<rparr>"
  let ?b0 = "\<lparr>bm_id = js ''2'', bm_user_id = js ''u'', bm_title = js ''B'',
          bm_url = js ''https://b.example'', bm_created_at = js ''t2''\<rparr>"
  let ?st0 = "initial_state\<lparr>items := [?a0, ?b0], deletingId := Some (js ''1'')\<rparr>"
  let ?er0 = "\<lparr>err_message = js ''denied''\<rparr>"
  let ?rok = "\<lparr>data = None, error = None\<rparr> :: unit response"
  let ?rko = "\<lparr>data = None, error = Some \<lparr>err_message = js ''denied''\<rparr>\<rparr> :: unit response"
  have i: "items ?st0 = [?a0, ?b0]" "bm_id ?a0 = js ''1''" "bm_id ?b0 = js ''2''"
    by (simp_all add: initial_state_def)
  note ok = deleteBookmark_reply
    [where r = ?rok and i = "js ''1''" and s = ?st0 and e = ?er0 and a = ?a0 and b = ?b0]
  note ko = deleteBookmark_reply
    [where r = ?rko and i = "js ''1''" and s = ?st0 and e = ?er0 and a = ?a0 and b = ?b0]
  have r1: "items (state_of (deleteBookmark_resume (js ''1'') ?rok ?st0)) = [?b0]"
    using ok i by simp
  have r2: "deletingId (state_of (deleteBookmark_resume (js ''1'') ?rok ?st0)) = None"
    using ok by auto
  have r3: "items (state_of (deleteBookmark_resume (js ''1'') ?rko ?st0)) = [?a0, ?b0]"
    using ko i by auto
  have r4: "message (state_of (deleteBookmark_resume (js ''1'') ?rko ?st0))
      = Some \<lparr>msg_type = err, msg_text = js ''denied''\<rparr>"
    using ko by auto
  show ?thesis
    using r1 r2 r3 r4 by simp
qed

subsection \<open>Claim C9\<close>

text \<open>
  C9. When the identifier is not in the collection and the store answers the
  delete without error, the collection is exactly as before and the notice is the
  success notice \<open>Deleted.\<close>: deleting an absent identifier is accepted, not
  rejected.
\<close>

theorem deleteBookmark_absent_id:
  assumes "error r = None" and "i \<notin> set (map bm_id (items s))"
  shows "\<exists>s'. deleteBookmark_resume i r s = Finished s'
      \<and> items s' = items s
      \<and> message s' = Some \<lparr>msg_type = ok, msg_text = js ''Deleted.''\<rparr>"
proof -
  from assms(2) have "filter (\<lambda>b. bm_id b \<noteq> i) (items s) = items s"
    by (rule filter_other_keys)
  with assms(1) show ?thesis
    by (simp add: deleteBookmark_resume_def Let_def setMessage_frame setMessage_message setters)
qed

theorem deleteBookmark_absent_id_witness:
  "error (\<lparr>data = None, error = None\<rparr> :: unit response) = None
   \<and> js ''3'' \<notin> set (map bm_id (items (initial_state\<lparr>items :=
          [\<lparr>bm_id = js ''1'', bm_user_id = js ''u'', bm_title = js ''A'',
          bm_url = js ''https://a.example'', bm_created_at = js ''t1''\<rparr>,
           \<lparr>bm_id = js ''2'', bm_user_id = js ''u'', bm_title = js ''B'',
          bm_url = js ''https://b.example'', bm_created_at = js ''t2''\<rparr>]\<rparr>)))
   \<and> items (state_of (deleteBookmark_resume (js ''3'') (\<lparr>data = None, error = None\<rparr> :: unit response)
        (initial_state\<lparr>items :=
          [\<lparr>bm_id = js ''1'', bm_user_id = js ''u'', bm_title = js ''A'',
          bm_url = js ''https://a.example'', bm_created_at = js ''t1''\<rparr>,
           \<lparr>bm_id = js ''2'', bm_user_id = js ''u'', bm_title = js ''B'',
          bm_url = js ''https://b.example'', bm_created_at = js ''t2''\<rparr>]\<rparr>)))
     = [\<lparr>bm_id = js ''1'', bm_user_id = js ''u'', bm_title = js ''A'',
          bm_url = js ''https://a.example'', bm_created_at = js ''t1''\<rparr>,
        \<lparr>bm_id = js ''2'', bm_user_id = js ''u'', bm_title = js ''B'',
          bm_url = js ''https://b.example'', bm_created_at = js ''t2''\<rparr>]
   \<and> message (state_of (deleteBookmark_resume (js ''3'') (\<lparr>data = None, error = None\<rparr> :: unit response)
        (initial_state\<lparr>items :=
          [\<lparr>bm_id = js ''1'', bm_user_id = js ''u'', bm_title = js ''A'',
          bm_url = js ''https://a.example'', bm_created_at = js ''t1''\<rparr>,
           \<lparr>bm_id = js ''2'', bm_user_id = js ''u'', bm_title = js ''B'',
          bm_url = js ''https://b.example'', bm_created_at = js ''t2''\<rparr>]\<rparr>)))
     = Some \<lparr>msg_type = ok, msg_text = js ''Deleted.''\<rparr>"
proof -
  let ?a0 = "\<lparr>bm_id = js ''1'', bm_user_id = js ''u'', bm_title = js ''A'',
          bm_url = js ''https://a.example'', bm_created_at = js ''t1''\<rparr>"
  let ?b0 = "\<lparr>bm_id = js ''2'', bm_user_id = js ''u'', bm_title = js ''B'',
          bm_url = js ''https://b.example'', bm_created_at = js ''t2''\<rparr>"
  let ?st0 = "initial_state\<lparr>items := [?a0, ?b0]\<rparr>"
  let ?rok = "\<lparr>data = None, error = None\<rparr> :: unit response"
  have h: "js ''3'' \<notin> set (map bm_id (items ?st0))"
    by (simp add: initial_state_def js_def)
  from deleteBookmark_absent_id [where r = ?rok and i = "js ''3''" and s = ?st0, OF _ h]
  have "items (state_of (deleteBookmark_resume (js ''3'') ?rok ?st0)) = items ?st0
    \<and> message (state_of (deleteBookmark_resume (js ''3'') ?rok ?st0))
       = Some \<lparr>msg_type = ok, msg_text = js ''Deleted.''\<rparr>"
    by auto
  then show ?thesis
    using h by (simp add: initial_state_def)
qed

subsection \<open>Claim C4\<close>

text \<open>
  C4, the part that does not hold as worded. The continuation after the insert
  puts the returned record in front of the collection without looking for it
  there. For a title and URL that pass the checks and a collection that does not
  hold the new identifier at the submit, let a refresh whose snapshot already
  contains the inserted record be applied before the insert's own answer: the
  record then stands twice in the collection.
\<close>

theorem addBookmark_duplicate_counterexample:
  "trim (title (initial_state\<lparr>title := js '' Docs'', url := js ''example.org/x'',
        items := [\<lparr>bm_id = js ''1'', bm_user_id = js ''u'', bm_title = js ''A'',
          bm_url = js ''https://a.example'', bm_created_at = js ''t1''\<rparr>]\<rparr>))
     = js ''Docs''
   \<and> normalizeUrl (url (initial_state\<lparr>title := js '' Docs'', url := js ''example.org/x'',
        items := [\<lparr>bm_id = js ''1'', bm_user_id = js ''u'', bm_title = js ''A'',
          bm_url = js ''https://a.example'', bm_created_at = js ''t1''\<rparr>]\<rparr>))
     = js ''https://example.org/x''
   \<and> (\<lambda>u. if u = js ''http://'' then Inl TypeError else Inr ()) (js ''https://example.org/x'') = Inr ()
   \<and> bm_id \<lparr>bm_id = js ''9'', bm_user_id = js ''u'', bm_title = js ''Docs'',
          bm_url = js ''https://example.org/x'', bm_created_at = js ''t9''\<rparr>
     \<notin> set (map bm_id (items (initial_state\<lparr>title := js '' Docs'',
        url := js ''example.org/x'',
        items := [\<lparr>bm_id = js ''1'', bm_user_id = js ''u'', bm_title = js ''A'',
          bm_url = js ''https://a.example'', bm_created_at = js ''t1''\<rparr>]\<rparr>)))
   \<and> items (run (\<lambda>u. if u = js ''http://'' then Inl TypeError else Inr ()) (js ''u'')
        [Submit,
         RefreshReply \<lparr>data = Some
           [\<lparr>bm_id = js ''9'', bm_user_id = js ''u'', bm_title = js ''Docs'',
          bm_url = js ''https://example.org/x'', bm_created_at = js ''t9''\<rparr>,
            \<lparr>bm_id = js ''1'', bm_user_id = js ''u'', bm_title = js ''A'',
          bm_url = js ''https://a.example'', bm_created_at = js ''t1''\<rparr>], error = None\<rparr>,
         InsertReply \<lparr>data = Some \<lparr>bm_id = js ''9'', bm_user_id = js ''u'', bm_title = js ''Docs'',
          bm_url = js ''https://example.org/x'', bm_created_at = js ''t9''\<rparr>, error = None\<rparr>]
        (initial_state\<lparr>title := js '' Docs'', url := js ''example.org/x'',
          items := [\<lparr>bm_id = js ''1'', bm_user_id = js ''u'', bm_title = js ''A'',
          bm_url = js ''https://a.example'', bm_created_at = js ''t1''\<rparr>]\<rparr>))
     = [\<lparr>bm_id = js ''9'', bm_user_id = js ''u'', bm_title = js ''Docs'',
          bm_url = js ''https://example.org/x'', bm_created_at = js ''t9''\<rparr>,
        \<lparr>bm_id = js ''9'', bm_user_id = js ''u'', bm_title = js ''Docs'',
          bm_url = js ''https://example.org/x'', bm_created_at = js ''t9''\<rparr>,
        \<lparr>bm_id = js ''1'', bm_user_id = js ''u'', bm_title = js ''A'',
          bm_url = js ''https://a.example'', bm_created_at = js ''t1''\<rparr>]
   \<and> count_list (items (run (\<lambda>u. if u = js ''http://'' then Inl TypeError else Inr ()) (js ''u'')
        [Submit,
         RefreshReply \<lparr>data = Some
           [\<lparr>bm_id = js ''9'', bm_user_id = js ''u'', bm_title = js ''Docs'',
          bm_url = js ''https://example.org/x'', bm_created_at = js ''t9''\<rparr>,
            \<lparr>bm_id = js ''1'', bm_user_id = js ''u'', bm_title = js ''A'',
          bm_url = js ''https://a.example'', bm_created_at = js ''t1''\<rparr>], error = None\<rparr>,
         InsertReply \<lparr>data = Some \<lparr>bm_id = js ''9'', bm_user_id = js ''u'', bm_title = js ''Docs'',
          bm_url = js ''https://example.org/x'', bm_created_at = js ''t9''\<rparr>, error = None\<rparr>]
        (initial_state\<lparr>title := js '' Docs'', url := js ''example.org/x'',
          items := [\<lparr>bm_id = js ''1'', bm_user_id = js ''u'', bm_title = js ''A'',
          bm_url = js ''https://a.example'', bm_created_at = js ''t1''\<rparr>]\<rparr>)))
        \<lparr>bm_id = js ''9'', bm_user_id = js ''u'', bm_title = js ''Docs'',
          bm_url = js ''https://example.org/x'', bm_created_at = js ''t9''\<rparr>
     = 2"
proof -
  let ?URL0 = "(\<lambda>u. if u = js ''http://'' then Inl TypeError else Inr ())"
  let ?a0 = "\<lparr>bm_id = js ''1'', bm_user_id = js ''u'', bm_title = js ''A'',
          bm_url = js ''https://a.example'', bm_created_at = js ''t1''\<rparr>"
  let ?n0 = "\<lparr>bm_id = js ''9'', bm_user_id = js ''u'', bm_title = js ''Docs'',
          bm_url = js ''https://example.org/x'', bm_created_at = js ''t9''\<rparr>"
  let ?st0 = "initial_state\<lparr>title := js '' Docs'', url := js ''example.org/x'',
        items := [?a0]\<rparr>"
  have t: "trim (title ?st0) = js ''Docs''"
    by (simp add: initial_state_def str_defs)
  have u: "normalizeUrl (url ?st0) = js ''https://example.org/x''"
    by (simp add: initial_state_def str_defs)
  have p: "?URL0 (js ''https://example.org/x'') = Inr ()"
    by (simp add: js_def)
  have f: "bm_id ?n0 \<notin> set (map bm_id (items ?st0))"
    by (simp add: initial_state_def js_def)
  have nt: "js ''Docs'' \<noteq> []" and nu: "js ''https://example.org/x'' \<noteq> []"
    by (simp_all add: js_def)
  have sub: "addBookmark_submit ?URL0 (js ''u'') ?st0
      = Awaiting (Insert (js ''u'') (js ''Docs'') (js ''https://example.org/x''))
          (setSubmitting True (setMessage None ?st0))"
    unfolding addBookmark_submit_def Let_def t u
    using nt nu p by simp
  have r: "items (run ?URL0 (js ''u'')
        [Submit, RefreshReply \<lparr>data = Some [?n0, ?a0], error = None\<rparr>,
         InsertReply \<lparr>data = Some ?n0, error = None\<rparr>] ?st0)
     = [?n0, ?n0, ?a0]"
    by (simp add: run_def sub fetchBookmarks_resume_def addBookmark_inserted_def Let_def
        addBookmark_done_fields setters)
  have c: "count_list [?n0, ?n0, ?a0] ?n0 = 2"
    by (simp add: js_def)
  show ?thesis
    unfolding r by (intro conjI t u p f refl c)
qed

text \<open>
  C4 as the code has it. For a title and URL that pass the three checks,
  \<open>addBookmark\<close> suspends on the insert of the trimmed title and the normalised
  URL with the collection untouched: nothing is shown before the store answers.
  When the store answers without error and returns the inserted record \<open>b\<close>, then
  in whatever state \<open>t\<close> the answer arrives the collection becomes \<open>b\<close> followed by
  the collection of \<open>t\<close>, so \<open>b\<close> is its head. It occurs there exactly once, by
  value and by identifier, provided no record of \<open>t\<close> carries its identifier; that
  is so in particular when the answer is applied directly after the submit to a
  collection that did not hold the identifier.
\<close>

theorem addBookmark_prepends_on_ack:
  assumes wf: "trim (title s) \<noteq> []" "trim (url s) \<noteq> []"
      "new_URL (normalizeUrl (url s)) = Inr parsed"
    and ack: "error r = None" "data r = Some b"
  shows "(\<exists>s1.
        addBookmark_submit new_URL userId s
          = Awaiting (Insert userId (trim (title s)) (normalizeUrl (url s))) s1
        \<and> items s1 = items s
        \<and> (bm_id b \<notin> set (map bm_id (items s)) \<longrightarrow>
             (\<exists>s2. addBookmark_inserted r s1 = Finished s2
                \<and> items s2 = b # items s
                \<and> hd (items s2) = b
                \<and> count_list (items s2) b = 1
                \<and> length (filter (\<lambda>x. bm_id x = bm_id b) (items s2)) = 1)))
      \<and> (\<exists>t'. addBookmark_inserted r t = Finished t'
            \<and> items t' = b # items t
            \<and> hd (items t') = b
            \<and> (bm_id b \<notin> set (map bm_id (items t)) \<longrightarrow>
                 count_list (items t') b = 1
                 \<and> length (filter (\<lambda>x. bm_id x = bm_id b) (items t')) = 1))"
proof -
  have any: "\<exists>t'. addBookmark_inserted r t = Finished t'
            \<and> items t' = b # items t
            \<and> hd (items t') = b
            \<and> (bm_id b \<notin> set (map bm_id (items t)) \<longrightarrow>
                 count_list (items t') b = 1
                 \<and> length (filter (\<lambda>x. bm_id x = bm_id b) (items t')) = 1)" for t
  proof -
    define t' where "t' = addBookmark_done (setItems (b # items t) (setSubmitting False t))"
    have ins: "addBookmark_inserted r t = Finished t'"
      using ack by (simp add: addBookmark_inserted_def Let_def t'_def setters)
    have it: "items t' = b # items t"
      by (simp add: t'_def addBookmark_done_fields setters)
    have once: "count_list (items t') b = 1
        \<and> length (filter (\<lambda>x. bm_id x = bm_id b) (items t')) = 1"
      if fresh: "bm_id b \<notin> set (map bm_id (items t))"
    proof -
      have "b \<notin> set (items t)"
        using fresh by auto
      then have "count_list (items t') b = 1"
        by (simp add: it count_list_0_iff)
      moreover have "filter (\<lambda>x. bm_id x = bm_id b) (items t) = []"
        using fresh by (rule filter_absent_key)
      then have "length (filter (\<lambda>x. bm_id x = bm_id b) (items t')) = 1"
        by (simp add: it)
      ultimately show ?thesis by simp
    qed
    show ?thesis
      using ins it once by auto
  qed
  define s1 where "s1 = setSubmitting True (setMessage None s)"
  have sub: "addBookmark_submit new_URL userId s
      = Awaiting (Insert userId (trim (title s)) (normalizeUrl (url s))) s1"
    using wf by (simp add: addBookmark_submit_def Let_def normalizeUrl_Nil_iff s1_def)
  have i1: "items s1 = items s"
    by (simp add: s1_def setters setMessage_frame)
  have seq: "bm_id b \<notin> set (map bm_id (items s)) \<longrightarrow>
             (\<exists>s2. addBookmark_inserted r s1 = Finished s2
                \<and> items s2 = b # items s
                \<and> hd (items s2) = b
                \<and> count_list (items s2) b = 1
                \<and> length (filter (\<lambda>x. bm_id x = bm_id b) (items s2)) = 1)"
    using any [of s1] by (auto simp: i1)
  show ?thesis
    using sub i1 seq any [of t] by blast
qed

theorem addBookmark_prepends_on_ack_witness:
  "trim (title (initial_state\<lparr>title := js '' Docs'', url := js ''example.org/x'',
        items := [\<lparr>bm_id = js ''1'', bm_user_id = js ''u'', bm_title = js ''A'',
          bm_url = js ''https://a.example'', bm_created_at = js ''t1''\<rparr>]\<rparr>))
     = js ''Docs''
   \<and> normalizeUrl (url (initial_state\<lparr>title := js '' Docs'', url := js ''example.org/x'',
        items := [\<lparr>bm_id = js ''1'', bm_user_id = js ''u'', bm_title = js ''A'',
          bm_url = js ''https://a.example'', bm_created_at = js ''t1''\<rparr>]\<rparr>))
     = js ''https://example.org/x''
   \<and> (\<lambda>u. if u = js ''http://'' then Inl TypeError else Inr ()) (js ''https://example.org/x'') = Inr ()
   \<and> bm_id \<lparr>bm_id = js ''9'', bm_user_id = js ''u'', bm_title = js ''Docs'',
          bm_url = js ''https://example.org/x'', bm_created_at = js ''t9''\<rparr>
     \<notin> set (map bm_id (items (initial_state\<lparr>title := js '' Docs'',
        url := js ''example.org/x'',
        items := [\<lparr>bm_id = js ''1'', bm_user_id = js ''u'', bm_title = js ''A'',
          bm_url = js ''https://a.example'', bm_created_at = js ''t1''\<rparr>]\<rparr>)))
   \<and> addBookmark_submit (\<lambda>u. if u = js ''http://'' then Inl TypeError else Inr ()) (js ''u'')
        (initial_state\<lparr>title := js '' Docs'', url := js ''example.org/x'',
          items := [\<lparr>bm_id = js ''1'', bm_user_id = js ''u'', bm_title = js ''A'',
          bm_url = js ''https://a.example'', bm_created_at = js ''t1''\<rparr>]\<rparr>)
     = Awaiting (Insert (js ''u'') (js ''Docs'') (js ''https://example.org/x''))
        (initial_state\<lparr>title := js '' Docs'', url := js ''example.org/x'',
          items := [\<lparr>bm_id = js ''1'', bm_user_id = js ''u'', bm_title = js ''A'',
          bm_url = js ''https://a.example'', bm_created_at = js ''t1''\<rparr>],
          submitting := True\<rparr>)
   \<and> items (state_of (addBookmark_inserted
        \<lparr>data = Some \<lparr>bm_id = js ''9'', bm_user_id = js ''u'', bm_title = js ''Docs'',
          bm_url = js ''https://example.org/x'', bm_created_at = js ''t9''\<rparr>, error = None\<rparr>
        (initial_state\<lparr>title := js '' Docs'', url := js ''example.org/x'',
          items := [\<lparr>bm_id = js ''1'', bm_user_id = js ''u'', bm_title = js ''A'',
          bm_url = js ''https://a.example'', bm_created_at = js ''t1''\<rparr>],
          submitting := True\<rparr>)))
     = [\<lparr>bm_id = js ''9'', bm_user_id = js ''u'', bm_title = js ''Docs'',
          bm_url = js ''https://example.org/x'', bm_created_at = js ''t9''\<rparr>,
        \<lparr>bm_id = js ''1'', bm_user_id = js ''u'', bm_title = js ''A'',
          bm_url = js ''https://a.example'', bm_created_at = js ''t1''\<rparr>]
   \<and> count_list (items (state_of (addBookmark_inserted
        \<lparr>data = Some \<lparr>bm_id = js ''9'', bm_user_id = js ''u'', bm_title = js ''Docs'',
          bm_url = js ''https://example.org/x'', bm_created_at = js ''t9''\<rparr>, error = None\<rparr>
        (initial_state\<lparr>title := js '' Docs'', url := js ''example.org/x'',
          items := [\<lparr>bm_id = js ''1'', bm_user_id = js ''u'', bm_title = js ''A'',
          bm_url = js ''https://a.example'', bm_created_at = js ''t1''\<rparr>],
          submitting := True\<rparr>))))
        \<lparr>bm_id = js ''9'', bm_user_id = js ''u'', bm_title = js ''Docs'',
          bm_url = js ''https://example.org/x'', bm_created_at = js ''t9''\<rparr>
     = 1"
proof -
  let ?URL0 = "(\<lambda>u. if u = js ''http://'' then Inl TypeError else Inr ())"
  let ?a0 = "\<lparr>bm_id = js ''1'', bm_user_id = js ''u'', bm_title = js ''A'',
          bm_url = js ''https://a.example'', bm_created_at = js ''t1''\<rparr>"
  let ?n0 = "\<lparr>bm_id = js ''9'', bm_user_id = js ''u'', bm_title = js ''Docs'',
          bm_url = js ''https://example.org/x'', bm_created_at = js ''t9''\<rparr>"
  let ?st0 = "initial_state\<lparr>title := js '' Docs'', url := js ''example.org/x'',
        items := [?a0]\<rparr>"
  let ?st1 = "?st0\<lparr>submitting := True\<rparr>"
  let ?rb0 = "\<lparr>data = Some ?n0, error = None\<rparr>"
  have t: "trim (title ?st0) = js ''Docs''"
    by (simp add: initial_state_def str_defs)
  have tu: "trim (url ?st0) \<noteq> []"
    by (simp add: initial_state_def str_defs)
  have u: "normalizeUrl (url ?st0) = js ''https://example.org/x''"
    by (simp add: initial_state_def str_defs)
  have p: "?URL0 (normalizeUrl (url ?st0)) = Inr ()"
    unfolding u by (simp add: js_def)
  have n: "trim (title ?st0) \<noteq> []"
    unfolding t by (simp add: js_def)
  have f: "bm_id ?n0 \<notin> set (map bm_id (items ?st0))"
    by (simp add: initial_state_def js_def)
  have f1: "bm_id ?n0 \<notin> set (map bm_id (items ?st1))"
    by (simp add: initial_state_def js_def)
  have m: "setSubmitting True (setMessage None ?st0) = ?st1"
    by (simp add: setMessage_def setSubmitting_def initial_state_def)
  note w = addBookmark_prepends_on_ack
    [where s = ?st0 and new_URL = ?URL0 and parsed = "()" and r = ?rb0 and b = ?n0
       and userId = "js ''u''" and t = ?st1, OF n tu p]
  from w obtain s1 where s1: "addBookmark_submit ?URL0 (js ''u'') ?st0
        = Awaiting (Insert (js ''u'') (trim (title ?st0)) (normalizeUrl (url ?st0))) s1"
    by auto
  have e1: "s1 = ?st1"
    using s1 n tu p m by (simp add: addBookmark_submit_def Let_def normalizeUrl_Nil_iff)
  from w f1 obtain t' where t': "addBookmark_inserted ?rb0 ?st1 = Finished t'"
      "items t' = ?n0 # items ?st1" "count_list (items t') ?n0 = 1"
    by auto
  have c3: "?URL0 (js ''https://example.org/x'') = Inr ()"
    by (simp add: js_def)
  have c4: "addBookmark_submit ?URL0 (js ''u'') ?st0
      = Awaiting (Insert (js ''u'') (js ''Docs'') (js ''https://example.org/x'')) ?st1"
    using s1 by (simp only: t u e1)
  have c5: "items (state_of (addBookmark_inserted ?rb0 ?st1)) = [?n0, ?a0]"
    using t'(1,2) by (simp add: initial_state_def)
  have c6: "count_list (items (state_of (addBookmark_inserted ?rb0 ?st1))) ?n0 = 1"
    using t'(1,3) by simp
  show ?thesis
    by (intro conjI t u c3 f c4 c5 c6)
qed

subsection \<open>Claim C6\<close>




subsection \<open>Claim C7\<close>

text \<open>
  C7, the part that does not hold as worded. The initial load clears \<open>loading\<close>
  only under the guard \<^verbatim>\<open>if (mounted)\<close>. When the effect that started the load has
  been cleaned up before the select is answered, the fetch completes (here with
  success and no rows) and \<open>loading\<close> is still set.
\<close>

theorem initialLoad_unmounted_counterexample:
  "loading (state_of (initialLoad_start initial_state)) = True
   \<and> loading (state_of (initialLoad_resume False \<lparr>data = Some [], error = None\<rparr>
        (state_of (initialLoad_start initial_state)))) = True"
  by (simp add: initialLoad_start_def initialLoad_resume_def fetchBookmarks_resume_def
      initial_state_def setters)

text \<open>
  C7 as the code has it. While the effect that started the load is still mounted,
  \<open>loading\<close> is false once the select is answered, with or without error; after
  its cleanup the answer is applied as by \<open>fetchBookmarks\<close> alone and \<open>loading\<close>
  keeps its value. In both cases an answer with an error puts the store's message
  into an error notice and leaves the collection unchanged.
\<close>

theorem initialLoad_clears_loading_when_mounted:
  "(\<exists>s'. initialLoad_resume True r s = Finished s' \<and> loading s' = False)
   \<and> initialLoad_resume False r s = Finished (fetchBookmarks_resume r s)
   \<and> loading (fetchBookmarks_resume r s) = loading s
   \<and> (error r = Some e \<longrightarrow>
        message (state_of (initialLoad_resume mounted r s))
          = Some \<lparr>msg_type = err, msg_text = err_message e\<rparr>
        \<and> items (state_of (initialLoad_resume mounted r s)) = items s)"
proof -
  have a: "\<exists>s'. initialLoad_resume True r s = Finished s' \<and> loading s' = False"
    by (simp add: initialLoad_resume_def Let_def setters)
  have b: "initialLoad_resume False r s = Finished (fetchBookmarks_resume r s)"
    by (simp add: initialLoad_resume_def Let_def)
  have c: "error r = Some e \<longrightarrow>
        message (state_of (initialLoad_resume mounted r s))
          = Some \<lparr>msg_type = err, msg_text = err_message e\<rparr>
        \<and> items (state_of (initialLoad_resume mounted r s)) = items s"
    by (simp add: initialLoad_resume_def Let_def fetchBookmarks_resume_def
        setMessage_frame setMessage_message setters)
  show ?thesis
    using a b c by (simp add: fetchBookmarks_resume_frame)
qed

theorem initialLoad_clears_loading_when_mounted_witness:
  "loading (state_of (initialLoad_start initial_state)) = True
   \<and> error (\<lparr>data = None, error = Some \<lparr>err_message = js ''denied''\<rparr>\<rparr> :: bookmark list response)
     = Some \<lparr>err_message = js ''denied''\<rparr>
   \<and> loading (state_of (initialLoad_resume True
        \<lparr>data = None, error = Some \<lparr>err_message = js ''denied''\<rparr>\<rparr>
        (state_of (initialLoad_start initial_state)))) = False
   \<and> message (state_of (initialLoad_resume True
        \<lparr>data = None, error = Some \<lparr>err_message = js ''denied''\<rparr>\<rparr>
        (state_of (initialLoad_start initial_state))))
     = Some \<lparr>msg_type = err, msg_text = js ''denied''\<rparr>
   \<and> items (state_of (initialLoad_resume True
        \<lparr>data = None, error = Some \<lparr>err_message = js ''denied''\<rparr>\<rparr>
        (state_of (initialLoad_start initial_state)))) = []"
proof -
  let ?st0 = "state_of (initialLoad_start initial_state)"
  let ?rl0 = "\<lparr>data = None, error = Some \<lparr>err_message = js ''denied''\<rparr>\<rparr> :: bookmark list response"
  note a = initialLoad_clears_loading_when_mounted
    [where r = ?rl0 and s = ?st0 and e = "\<lparr>err_message = js ''denied''\<rparr>" and mounted = True]
  have c0: "loading ?st0 = True" "items ?st0 = []"
    by (simp_all add: initialLoad_start_def setters initial_state_def)
  have c1: "loading (state_of (initialLoad_resume True ?rl0 ?st0)) = False"
    using a by auto
  have c2: "message (state_of (initialLoad_resume True ?rl0 ?st0))
     = Some \<lparr>msg_type = err, msg_text = js ''denied''\<rparr>"
    using a by simp
  have c3: "items (state_of (initialLoad_resume True ?rl0 ?st0)) = []"
    using a c0 by simp
  show ?thesis
    using c0 c1 c2 c3 by simp
qed

subsection \<open>Claim C10\<close>

text \<open>
  C10. When the insert is answered without error and with the record,
  \<open>addBookmark\<close> ends with both input fields empty and the notice
  \<open>Bookmark added!\<close>; when it is answered without error and without a record,
  \<open>addBookmark\<close> refetches and then ends the same way. No stretch of \<open>addBookmark\<close>,
  whether it ends in success or in failure, changes \<open>loading\<close> or \<open>deletingId\<close>.
\<close>

theorem addBookmark_success_effects:
  "(error r = None \<and> data r = Some b \<longrightarrow>
      (\<exists>s'. addBookmark_inserted r s = Finished s'
         \<and> title s' = [] \<and> url s' = []
         \<and> message s' = Some \<lparr>msg_type = ok, msg_text = js ''Bookmark added!''\<rparr>))
   \<and> (error r = None \<and> data r = None \<longrightarrow>
      (\<exists>s'. addBookmark_inserted r s = Awaiting Select s'))
   \<and> (\<exists>s'. addBookmark_refetched f s = Finished s'
         \<and> title s' = [] \<and> url s' = []
         \<and> message s' = Some \<lparr>msg_type = ok, msg_text = js ''Bookmark added!''\<rparr>)
   \<and> loading (state_of (addBookmark_submit new_URL userId s)) = loading s
   \<and> deletingId (state_of (addBookmark_submit new_URL userId s)) = deletingId s
   \<and> loading (state_of (addBookmark_inserted r s)) = loading s
   \<and> deletingId (state_of (addBookmark_inserted r s)) = deletingId s
   \<and> loading (state_of (addBookmark_refetched f s)) = loading s
   \<and> deletingId (state_of (addBookmark_refetched f s)) = deletingId s"
proof -
  have a: "error r = None \<and> data r = Some b \<longrightarrow>
      (\<exists>s'. addBookmark_inserted r s = Finished s'
         \<and> title s' = [] \<and> url s' = []
         \<and> message s' = Some \<lparr>msg_type = ok, msg_text = js ''Bookmark added!''\<rparr>)"
    by (simp add: addBookmark_inserted_def Let_def addBookmark_done_fields)
  have b: "error r = None \<and> data r = None \<longrightarrow>
      (\<exists>s'. addBookmark_inserted r s = Awaiting Select s')"
    by (simp add: addBookmark_inserted_def Let_def)
  have c: "\<exists>s'. addBookmark_refetched f s = Finished s'
         \<and> title s' = [] \<and> url s' = []
         \<and> message s' = Some \<lparr>msg_type = ok, msg_text = js ''Bookmark added!''\<rparr>"
    by (simp add: addBookmark_refetched_def addBookmark_done_fields)
  have f1: "loading (state_of (addBookmark_submit new_URL userId s)) = loading s"
    "deletingId (state_of (addBookmark_submit new_URL userId s)) = deletingId s"
    by (simp_all add: addBookmark_submit_def Let_def setMessage_frame setters split: sum.splits)
  have f2: "loading (state_of (addBookmark_inserted r s)) = loading s"
    "deletingId (state_of (addBookmark_inserted r s)) = deletingId s"
    by (simp_all add: addBookmark_inserted_def Let_def setMessage_frame setters
        addBookmark_done_fields split: option.splits)
  have f3: "loading (state_of (addBookmark_refetched f s)) = loading s"
    "deletingId (state_of (addBookmark_refetched f s)) = deletingId s"
    by (simp_all add: addBookmark_refetched_def addBookmark_done_fields
        fetchBookmarks_resume_frame)
  show ?thesis
    using a b c f1 f2 f3 by blast
qed

theorem addBookmark_success_effects_witness:
  "error \<lparr>data = Some \<lparr>bm_id = js ''9'', bm_user_id = js ''u'', bm_title = js ''Docs'',
          bm_url = js ''https://example.org/x'', bm_created_at = js ''t9''\<rparr>, error = None\<rparr> = None
   \<and> title (state_of (addBookmark_inserted
        \<lparr>data = Some \<lparr>bm_id = js ''9'', bm_user_id = js ''u'', bm_title = js ''Docs'',
          bm_url = js ''https://example.org/x'', bm_created_at = js ''t9''\<rparr>, error = None\<rparr>
        (initial_state\<lparr>title := js ''Docs'', url := js ''example.org/x'',
          submitting := True\<rparr>)))
     = []
   \<and> url (state_of (addBookmark_inserted
        \<lparr>data = Some \<lparr>bm_id = js ''9'', bm_user_id = js ''u'', bm_title = js ''Docs'',
          bm_url = js ''https://example.org/x'', bm_created_at = js ''t9''\<rparr>, error = None\<rparr>
        (initial_state\<lparr>title := js ''Docs'', url := js ''example.org/x'',
          submitting := True\<rparr>)))
     = []
   \<and> message (state_of (addBookmark_inserted
        \<lparr>data = Some \<lparr>bm_id = js ''9'', bm_user_id = js ''u'', bm_title = js ''Docs'',
          bm_url = js ''https://example.org/x'', bm_created_at = js ''t9''\<rparr>, error = None\<rparr>
        (initial_state\<lparr>title := js ''Docs'', url := js ''example.org/x'',
          submitting := True\<rparr>)))
     = Some \<lparr>msg_type = ok, msg_text = js ''Bookmark added!''\<rparr>
   \<and> addBookmark_inserted \<lparr>data = None, error = None\<rparr>
        (initial_state\<lparr>title := js ''Docs'', url := js ''example.org/x'',
          submitting := True\<rparr>)
     = Awaiting Select
        (initial_state\<lparr>title := js ''Docs'', url := js ''example.org/x'',
          submitting := False\<rparr>)
   \<and> loading (state_of (addBookmark_inserted
        \<lparr>data = Some \<lparr>bm_id = js ''9'', bm_user_id = js ''u'', bm_title = js ''Docs'',
          bm_url = js ''https://example.org/x'', bm_created_at = js ''t9''\<rparr>, error = None\<rparr>
        (initial_state\<lparr>title := js ''Docs'', url := js ''example.org/x'',
          submitting := True\<rparr>)))
     = True"
proof -
  let ?n0 = "\<lparr>bm_id = js ''9'', bm_user_id = js ''u'', bm_title = js ''Docs'',
          bm_url = js ''https://example.org/x'', bm_created_at = js ''t9''\<rparr>"
  let ?st0 = "initial_state\<lparr>title := js ''Docs'', url := js ''example.org/x'',
          submitting := True\<rparr>"
  let ?rb0 = "\<lparr>data = Some ?n0, error = None\<rparr>"
  let ?rn0 = "\<lparr>data = None, error = None\<rparr> :: bookmark response"
  let ?URL0 = "\<lambda>u :: jsstring. Inr () :: exn + unit"
  note a = addBookmark_success_effects
    [where r = ?rb0 and b = ?n0 and s = ?st0 and new_URL = ?URL0 and userId = "js ''u''"
       and f = "\<lparr>data = None, error = None\<rparr>"]
  note b = addBookmark_success_effects
    [where r = ?rn0 and b = ?n0 and s = ?st0 and new_URL = ?URL0 and userId = "js ''u''"
       and f = "\<lparr>data = None, error = None\<rparr>"]
  have c1: "title (state_of (addBookmark_inserted ?rb0 ?st0)) = []
     \<and> url (state_of (addBookmark_inserted ?rb0 ?st0)) = []
     \<and> message (state_of (addBookmark_inserted ?rb0 ?st0))
       = Some \<lparr>msg_type = ok, msg_text = js ''Bookmark added!''\<rparr>"
    using a by auto
  have c2: "loading (state_of (addBookmark_inserted ?rb0 ?st0)) = True"
    using a by (simp add: initial_state_def)
  from b obtain s' where "addBookmark_inserted ?rn0 ?st0 = Awaiting Select s'"
    by auto
  then have c3: "addBookmark_inserted ?rn0 ?st0
     = Awaiting Select (initial_state\<lparr>title := js ''Docs'', url := js ''example.org/x'',
          submitting := False\<rparr>)"
    by (simp add: addBookmark_inserted_def Let_def setters initial_state_def)
  show ?thesis
    using c1 c2 c3 by simp
qed

section \<open>The auto-hide timer\<close>

lemma timer_inv_iff:
  "timer_inv s \<longleftrightarrow>
     (message s = None \<and> timers s = [] \<and> hide_handle s = None)
     \<or> (\<exists>m h due. message s = Some m \<and> timers s = [(h, due)] \<and> hide_handle s = Some h
            \<and> clock s < due \<and> due \<le> clock s + 2500)"
  by (auto simp: timer_inv_def split: option.splits list.splits)

lemma fresh_notice_iff:
  "fresh_notice s \<longleftrightarrow>
     (\<exists>m h. message s = Some m \<and> timers s = [(h, clock s + 2500)] \<and> hide_handle s = Some h)"
  by (auto simp: fresh_notice_def split: list.splits)

lemma timer_inv_init: "timer_inv initial_state"
  by (simp add: timer_inv_def initial_state_def)

lemma setMessage_Some_inv:
  assumes "timer_inv s"
  shows "timers (setMessage (Some n) s) = [(next_handle s, clock s + 2500)]"
    and "hide_handle (setMessage (Some n) s) = Some (next_handle s)"
  using assms unfolding timer_inv_iff
  by (auto simp: msg_defs)

lemma setMessage_None_inv:
  assumes "timer_inv s"
  shows "timers (setMessage None s) = []"
    and "hide_handle (setMessage None s) = None"
  using assms unfolding timer_inv_iff
  by (auto simp: msg_defs)

lemma timer_inv_setMessage: "timer_inv s \<Longrightarrow> timer_inv (setMessage v s)"
proof (cases v)
  case None
  assume "timer_inv s"
  from setMessage_None_inv [OF this] show ?thesis
    unfolding None by (simp add: timer_inv_iff setMessage_message)
next
  case (Some n)
  assume "timer_inv s"
  from setMessage_Some_inv [OF this, of n] show ?thesis
    unfolding Some by (simp add: timer_inv_iff setMessage_message setMessage_frame)
qed

lemma fresh_notice_setMessage: "timer_inv s \<Longrightarrow> fresh_notice (setMessage (Some n) s)"
  by (simp add: fresh_notice_iff setMessage_Some_inv setMessage_message setMessage_frame)

lemma timer_inv_setters:
  "timer_inv (setTitle a s) = timer_inv s"
  "timer_inv (setUrl a s) = timer_inv s"
  "timer_inv (setItems bs s) = timer_inv s"
  "timer_inv (setLoading c s) = timer_inv s"
  "timer_inv (setSubmitting c s) = timer_inv s"
  "timer_inv (setDeletingId i s) = timer_inv s"
  by (simp_all add: timer_inv_iff setters)

lemma fresh_notice_setters:
  "fresh_notice (setTitle a s) = fresh_notice s"
  "fresh_notice (setUrl a s) = fresh_notice s"
  "fresh_notice (setItems bs s) = fresh_notice s"
  "fresh_notice (setLoading c s) = fresh_notice s"
  "fresh_notice (setSubmitting c s) = fresh_notice s"
  "fresh_notice (setDeletingId i s) = fresh_notice s"
  by (simp_all add: fresh_notice_iff setters)

lemma advance_idle:
  assumes "timers s = []"
  shows "advance d s = s\<lparr>clock := clock s + d\<rparr>"
  using assms by (simp add: advance_def)

lemma advance_before:
  assumes "timers s = [(h, due)]" "clock s + d < due"
  shows "advance d s = s\<lparr>clock := clock s + d\<rparr>"
  using assms by (simp add: advance_def)

lemma advance_expire:
  assumes "timers s = [(h, due)]" "due \<le> clock s + d" "hide_handle s = Some h" "message s = Some m"
  shows "message (advance d s) = None"
    and "timers (advance d s) = []"
    and "hide_handle (advance d s) = None"
    and "clock (advance d s) = clock s + d"
  using assms by (simp_all add: advance_def fire_def msg_defs)

lemma advance_cases:
  assumes "timer_inv s"
  shows "(message (advance d s) = message s \<and> timers (advance d s) = timers s
            \<and> hide_handle (advance d s) = hide_handle s
            \<and> (\<forall>h due. timers s = [(h, due)] \<longrightarrow> clock s + d < due))
         \<or> (message (advance d s) = None \<and> timers (advance d s) = []
            \<and> hide_handle (advance d s) = None)"
proof -
  consider (idle) "message s = None" "timers s = []" "hide_handle s = None"
    | (pending) m h due where "message s = Some m" "timers s = [(h, due)]"
        "hide_handle s = Some h" "clock s < due" "due \<le> clock s + 2500"
    using assms by (auto simp: timer_inv_iff)
  then show ?thesis
  proof cases
    case idle
    then show ?thesis by (simp add: advance_idle)
  next
    case pending
    show ?thesis
    proof (cases "clock s + d < due")
      case True
      with pending show ?thesis by (simp add: advance_before)
    next
      case False
      then have "due \<le> clock s + d" by simp
      from advance_expire [OF pending(2) this pending(3) pending(1)]
      show ?thesis by simp
    qed
  qed
qed

lemma clock_advance: "timer_inv s \<Longrightarrow> clock (advance d s) = clock s + d"
  by (auto simp: timer_inv_iff advance_idle advance_def fire_def msg_defs)

lemma timer_inv_advance:
  assumes "timer_inv s"
  shows "timer_inv (advance d s)"
  using advance_cases [OF assms, of d] assms clock_advance [OF assms, of d]
  by (auto simp: timer_inv_iff)

lemma fresh_notice_clears:
  assumes "fresh_notice s"
  shows "d < 2500 \<Longrightarrow> message (advance d s) = message s"
    and "2500 \<le> d \<Longrightarrow> message (advance d s) = None"
proof -
  from assms obtain m h where f: "message s = Some m" "timers s = [(h, clock s + 2500)]"
      "hide_handle s = Some h"
    by (auto simp: fresh_notice_iff)
  show "message (advance d s) = message s" if "d < 2500"
    using that f by (simp add: advance_before)
  show "message (advance d s) = None" if "2500 \<le> d"
    using that advance_expire(1) [OF f(2) _ f(3) f(1), of d] by simp
qed

lemma timer_inv_fetch: "timer_inv s \<Longrightarrow> timer_inv (fetchBookmarks_resume r s)"
  by (simp add: fetchBookmarks_resume_def timer_inv_setMessage timer_inv_setters
      split: option.splits)

lemma timer_inv_done: "timer_inv s \<Longrightarrow> timer_inv (addBookmark_done s)"
  by (simp add: addBookmark_done_def timer_inv_setMessage timer_inv_setters)

lemma timer_inv_step:
  assumes "timer_inv s"
  shows "timer_inv (step new_URL userId ev s)"
proof (cases ev)
  case Submit
  then show ?thesis
    using assms
    by (simp add: addBookmark_submit_def Let_def timer_inv_setMessage timer_inv_setters
        split: sum.splits)
next
  case (InsertReply r)
  then show ?thesis
    using assms
    by (simp add: addBookmark_inserted_def Let_def timer_inv_setMessage timer_inv_setters
        timer_inv_done split: option.splits)
next
  case (DeleteReply i r)
  then show ?thesis
    using assms
    by (simp add: deleteBookmark_resume_def Let_def timer_inv_setMessage timer_inv_setters
        split: option.splits)
next
  case (LoadReply mounted r)
  then show ?thesis
    using assms
    by (simp add: initialLoad_resume_def Let_def timer_inv_fetch timer_inv_setters)
qed (use assms in \<open>simp_all add: timer_inv_setters timer_inv_fetch timer_inv_done
      timer_inv_advance timer_inv_setMessage addBookmark_refetched_def
      deleteBookmark_click_def initialLoad_start_def\<close>)

lemma timer_inv_run: "timer_inv s \<Longrightarrow> timer_inv (run new_URL userId evs s)"
  unfolding run_def by (induction evs arbitrary: s) (simp_all add: timer_inv_step)

lemma fresh_notice_exits:
  assumes "timer_inv s"
  shows "error r = Some e \<Longrightarrow> fresh_notice (fetchBookmarks_resume r s)"
    and "error r = Some e \<Longrightarrow> fresh_notice (state_of (initialLoad_resume mounted r s))"
    and "trim (title s) = [] \<or> trim (url s) = [] \<or> isl (new_URL (normalizeUrl (url s)))
      \<Longrightarrow> fresh_notice (state_of (addBookmark_submit new_URL userId s))"
    and "error ir \<noteq> None \<or> data ir \<noteq> None
      \<Longrightarrow> fresh_notice (state_of (addBookmark_inserted ir s))"
    and "fresh_notice (state_of (addBookmark_refetched r s))"
    and "fresh_notice (state_of (deleteBookmark_resume i dr s))"
proof -
  show f: "fresh_notice (fetchBookmarks_resume r s)" if "error r = Some e"
    using that assms by (simp add: fetchBookmarks_resume_def fresh_notice_setMessage)
  show "fresh_notice (state_of (initialLoad_resume mounted r s))" if "error r = Some e"
    using f [OF that] by (simp add: initialLoad_resume_def Let_def fresh_notice_setters)
  have n: "timer_inv (setMessage None s)"
    using assms by (rule timer_inv_setMessage)
  show "fresh_notice (state_of (addBookmark_submit new_URL userId s))"
    if "trim (title s) = [] \<or> trim (url s) = [] \<or> isl (new_URL (normalizeUrl (url s)))"
    using that n
    by (auto simp: addBookmark_submit_def Let_def normalizeUrl_Nil_iff fresh_notice_setMessage
        isl_def)
  have d: "fresh_notice (addBookmark_done t)" if "timer_inv t" for t
    using that by (simp add: addBookmark_done_def fresh_notice_setMessage timer_inv_setters)
  show "fresh_notice (state_of (addBookmark_inserted ir s))"
    if "error ir \<noteq> None \<or> data ir \<noteq> None"
    using that assms
    by (auto simp: addBookmark_inserted_def Let_def fresh_notice_setMessage timer_inv_setters d
        split: option.splits)
  show "fresh_notice (state_of (addBookmark_refetched r s))"
    using assms by (simp add: addBookmark_refetched_def d timer_inv_fetch)
  show "fresh_notice (state_of (deleteBookmark_resume i dr s))"
    using assms
    by (simp add: deleteBookmark_resume_def Let_def fresh_notice_setMessage timer_inv_setters
        split: option.splits)
qed

subsection \<open>Claim C8\<close>

text \<open>
  C8. In every state \<open>s\<close> the component can reach, at most one timeout is pending.
  Setting a notice \<open>n\<close> there leaves exactly one, the new one, due 2500 ms later:
  a timeout pending for an earlier notice is cancelled and replaced. With no
  further event, \<open>n\<close> is still showing after any time below 2500 ms and is gone
  once 2500 ms have passed. Every exit of an operation that sets a notice (a
  failed fetch, also in the initial load; a failed validation; the insert's
  answer with an error or with the record; the end of the fallback refetch; the
  delete's answer) leaves such a freshly set notice, and a freshly set notice in
  any state \<open>t\<close> stays below 2500 ms and is cleared at 2500 ms.
\<close>

theorem notice_auto_hides:
  assumes "s = run new_URL userId evs initial_state"
  shows "length (timers s) \<le> 1
    \<and> message (setMessage (Some n) s) = Some n
    \<and> timers (setMessage (Some n) s) = [(next_handle s, clock s + 2500)]
    \<and> (d < 2500 \<longrightarrow> message (advance d (setMessage (Some n) s)) = Some n)
    \<and> (2500 \<le> d \<longrightarrow> message (advance d (setMessage (Some n) s)) = None)
    \<and> (error r = Some e \<longrightarrow>
          fresh_notice (fetchBookmarks_resume r s)
          \<and> fresh_notice (state_of (initialLoad_resume mounted r s)))
    \<and> (trim (title s) = [] \<or> trim (url s) = [] \<or> isl (new_URL (normalizeUrl (url s))) \<longrightarrow>
          fresh_notice (state_of (addBookmark_submit new_URL userId s)))
    \<and> (error ir \<noteq> None \<or> data ir \<noteq> None \<longrightarrow>
          fresh_notice (state_of (addBookmark_inserted ir s)))
    \<and> fresh_notice (state_of (addBookmark_refetched r s))
    \<and> fresh_notice (state_of (deleteBookmark_resume i dr s))
    \<and> (fresh_notice t \<longrightarrow>
          (d < 2500 \<longrightarrow> message (advance d t) = message t)
          \<and> (2500 \<le> d \<longrightarrow> message (advance d t) = None))"
proof -
  have inv: "timer_inv s"
    unfolding assms by (rule timer_inv_run [OF timer_inv_init])
  then have one: "length (timers s) \<le> 1"
    by (auto simp: timer_inv_iff)
  have fr: "fresh_notice (setMessage (Some n) s)"
    using inv by (rule fresh_notice_setMessage)
  have m: "message (setMessage (Some n) s) = Some n"
    by (rule setMessage_message)
  have tm: "timers (setMessage (Some n) s) = [(next_handle s, clock s + 2500)]"
    using inv by (rule setMessage_Some_inv)
  have a: "d < 2500 \<longrightarrow> message (advance d (setMessage (Some n) s)) = Some n"
    using fresh_notice_clears(1) [OF fr, of d] m by simp
  have b: "2500 \<le> d \<longrightarrow> message (advance d (setMessage (Some n) s)) = None"
    using fresh_notice_clears(2) [OF fr, of d] by simp
  have c: "fresh_notice t \<longrightarrow>
          (d < 2500 \<longrightarrow> message (advance d t) = message t)
          \<and> (2500 \<le> d \<longrightarrow> message (advance d t) = None)"
    using fresh_notice_clears [of t d] by blast
  note x = fresh_notice_exits [OF inv]
  show ?thesis
    using one m tm a b c x(1) [of r e] x(2) [of r e mounted] x(3) [of new_URL userId]
      x(4) [of ir] x(5) [of r] x(6) [of i dr]
    by blast
qed

theorem notice_auto_hides_witness:
  "timers (run (\<lambda>u. if u = js ''http://'' then Inl TypeError else Inr ()) (js ''u'')
        [Submit, Elapse 1000] initial_state)
     = [(0, 2500)]
   \<and> timers (setMessage (Some \<lparr>msg_type = ok, msg_text = js ''Deleted.''\<rparr>)
        (run (\<lambda>u. if u = js ''http://'' then Inl TypeError else Inr ()) (js ''u'')
          [Submit, Elapse 1000] initial_state))
     = [(1, 3500)]
   \<and> (2499 :: nat) < 2500
   \<and> message (advance 2499
        (setMessage (Some \<lparr>msg_type = ok, msg_text = js ''Deleted.''\<rparr>)
          (run (\<lambda>u. if u = js ''http://'' then Inl TypeError else Inr ()) (js ''u'')
            [Submit, Elapse 1000] initial_state)))
     = Some \<lparr>msg_type = ok, msg_text = js ''Deleted.''\<rparr>
   \<and> (2500 :: nat) \<le> 2500
   \<and> message (advance 2500
        (setMessage (Some \<lparr>msg_type = ok, msg_text = js ''Deleted.''\<rparr>)
          (run (\<lambda>u. if u = js ''http://'' then Inl TypeError else Inr ()) (js ''u'')
            [Submit, Elapse 1000] initial_state)))
     = None
   \<and> fresh_notice (state_of (deleteBookmark_resume (js ''1'')
        (\<lparr>data = None, error = None\<rparr> :: unit response)
        (run (\<lambda>u. if u = js ''http://'' then Inl TypeError else Inr ()) (js ''u'')
          [Submit, Elapse 1000] initial_state)))
   \<and> message (advance 2500 (state_of (deleteBookmark_resume (js ''1'')
        (\<lparr>data = None, error = None\<rparr> :: unit response)
        (run (\<lambda>u. if u = js ''http://'' then Inl TypeError else Inr ()) (js ''u'')
          [Submit, Elapse 1000] initial_state))))
     = None"
proof -
  let ?URL0 = "(\<lambda>u. if u = js ''http://'' then Inl TypeError else Inr ())"
  let ?st0 = "run ?URL0 (js ''u'') [Submit, Elapse 1000] initial_state"
  let ?nt0 = "\<lparr>msg_type = ok, msg_text = js ''Deleted.''\<rparr>"
  let ?dr0 = "\<lparr>data = None, error = None\<rparr> :: unit response"
  let ?del = "state_of (deleteBookmark_resume (js ''1'') ?dr0 ?st0)"
  have s: "?st0 = initial_state\<lparr>message := Some \<lparr>msg_type = err,
        msg_text = js ''Please enter a title.''\<rparr>, clock := 1000, timers := [(0, 2500)],
        next_handle := 1, hide_handle := Some 0\<rparr>"
    by (simp add: run_def addBookmark_submit_def Let_def trim_Nil initial_state_def
        msg_defs advance_def)
  have c0: "timers ?st0 = [(0, 2500)]" "next_handle ?st0 = 1" "clock ?st0 = 1000"
    by (simp_all add: s)
  note a = notice_auto_hides
    [where s = ?st0 and new_URL = ?URL0 and userId = "js ''u''"
       and evs = "[Submit, Elapse 1000]" and n = ?nt0 and d = 2499
       and r = "\<lparr>data = None, error = None\<rparr>" and e = "\<lparr>err_message = []\<rparr>"
       and mounted = True and ir = "\<lparr>data = None, error = None\<rparr>"
       and i = "js ''1''" and dr = ?dr0 and t = ?del, OF refl]
  note b = notice_auto_hides
    [where s = ?st0 and new_URL = ?URL0 and userId = "js ''u''"
       and evs = "[Submit, Elapse 1000]" and n = ?nt0 and d = 2500
       and r = "\<lparr>data = None, error = None\<rparr>" and e = "\<lparr>err_message = []\<rparr>"
       and mounted = True and ir = "\<lparr>data = None, error = None\<rparr>"
       and i = "js ''1''" and dr = ?dr0 and t = ?del, OF refl]
  have c1: "timers (setMessage (Some ?nt0) ?st0) = [(1, 3500)]"
    using a c0 by simp
  have c2: "message (advance 2499 (setMessage (Some ?nt0) ?st0)) = Some ?nt0"
    using a by simp
  have c3: "message (advance 2500 (setMessage (Some ?nt0) ?st0)) = None"
    using b by simp
  have c4: "fresh_notice ?del"
    using b by blast
  have c5: "message (advance 2500 ?del) = None"
    using b c4 by simp
  show ?thesis
    using c0 c1 c2 c3 c4 c5 by simp
qed

end
